theory Spec2Isabelle
  imports Complex_Main "HOL-Library.Sublist" "HOL-Library.AList"
begin

section \<open>SPT liquefaction software: calculation engine and column recognition\<close>

text \<open>
  A shallow embedding of two methods of the class \<open>SPTLiquefactionSoftware\<close>:
  \<open>calculate_liquefaction_index\<close> (the calculation engine) and
  \<open>_auto_recognize_column_names\<close> with \<open>_standardize_text\<close> (the column
  recognition).

  Conventions of the embedding:
  \<^item> a Python \<open>str\<close> is the list of its Unicode code points (\<open>pystr\<close>);
  \<^item> a Python \<open>float\<close> is a real number: rounding is not modelled, the exceptions
    of the arithmetic are (division by zero, \<open>math.sqrt\<close> and \<open>math.log\<close> outside
    their domain, \<open>math.exp\<close> above the range of a double). The theorems below are
    of three kinds: the formula that a value of a run is computed by, bounds on such a
    value, and the equality of two runs that perform the same operations. No theorem needs
    two different inputs to give two different values: in the code's doubles they need
    not (two blow counts one unit in the last place apart give the same probability);
  \<^item> an exception is the \<open>Inl\<close> of a sum type;
  \<^item> the three display strings of the result dictionary
    (\<open>seismic_param_choice_result\<close>, \<open>particle_content_choice_result\<close>,
    \<open>beta_calculation_method_choice_result\<close>) are formatted text for the user
    interface and are left out of the result record.
\<close>

subsection \<open>Strings\<close>

type_synonym pystr = "nat list"

definition py_str :: "string \<Rightarrow> pystr" where
  "py_str s = map of_char s"

text \<open>The literal \<open>"\<rho>c"\<close>: GREEK SMALL LETTER RHO (U+03C1) followed by \<open>c\<close>.\<close>

definition rho_c :: pystr where
  "rho_c = [961, 99]"

subsection \<open>Errors and the partial operations of Python's arithmetic\<close>

text \<open>
  \<open>AmaxRangeError\<close> is the \<open>ValueError\<close> raised by the range check on amax (it carries
  the rejected value); \<open>MathDomainError\<close> is the \<open>ValueError\<close> ("math domain error")
  of \<open>math.sqrt\<close> and \<open>math.log\<close>; \<open>OverflowError\<close> is raised by \<open>math.exp\<close>.
\<close>

datatype py_error = AmaxRangeError real | MathDomainError | ZeroDivisionError | OverflowError

definition py_div :: "real \<Rightarrow> real \<Rightarrow> py_error + real" where
  "py_div a b = (if b = 0 then Inl ZeroDivisionError else Inr (a / b))"

definition math_sqrt :: "real \<Rightarrow> py_error + real" where
  "math_sqrt x = (if x < 0 then Inl MathDomainError else Inr (sqrt x))"

definition math_log :: "real \<Rightarrow> py_error + real" where
  "math_log x = (if x \<le> 0 then Inl MathDomainError else Inr (ln x))"

text \<open>
  \<open>math.exp\<close> raises \<open>OverflowError\<close> when its result exceeds the largest double,
  that is when its argument exceeds the logarithm of that double (709.782712893384 to
  twelve decimals).
\<close>

definition exp_overflow_bound :: real where
  "exp_overflow_bound = 709.782712893384"

definition math_exp :: "real \<Rightarrow> py_error + real" where
  "math_exp x = (if x > exp_overflow_bound then Inl OverflowError else Inr (exp x))"

subsection \<open>Data of the calculation\<close>

text \<open>One element of \<open>data["soil_layer_data"]\<close>.\<close>

record soil_layer =
  layer_ds :: real
  layer_N :: real
  layer_content_value :: real
  layer_seismic_param_value :: real

text \<open>The dictionary \<open>data\<close> passed to \<open>calculate_liquefaction_index\<close>.\<close>

record calculation_data =
  acceleration_intensity_choice :: pystr
  seismic_intensity :: int
  surface_peak_acceleration_amax :: real
  discrimination_depth :: int
  groundwater_depth_dw :: real
  surface_wave_magnitude_Ms :: real
  design_earthquake_group :: pystr
  beta_calculation_method :: pystr
  particle_content_choice :: pystr
  soil_layer_data :: "soil_layer list"

text \<open>One element of \<open>soil_layer_calculation_details\<close>.\<close>

record layer_detail =
  detail_ds :: real
  detail_N :: real
  detail_content_value :: real
  detail_Ncr :: real
  detail_PL :: real
  detail_Ncr_PL :: real
  detail_wi :: real
  detail_contribution_value :: real

text \<open>The four strings assigned to \<open>liquefaction_grade\<close>.\<close>

datatype grade = No_Liquefaction | Slight_Liquefaction | Moderate_Liquefaction | Severe_Liquefaction

text \<open>The dictionary returned by \<open>calculate_liquefaction_index\<close>.\<close>

record calculation_result =
  result_seismic_intensity :: int
  result_surface_peak_acceleration_amax :: real
  result_discrimination_depth :: int
  result_groundwater_depth_dw :: real
  result_surface_wave_magnitude_Ms :: real
  result_design_earthquake_group :: pystr
  result_design_earthquake_adjustment_coefficient_beta :: real
  result_particle_content_choice :: pystr
  result_acceleration_intensity_choice :: pystr
  result_beta_calculation_method :: pystr
  liquefaction_index_ILE :: real
  liquefaction_grade :: grade
  soil_layer_calculation_details :: "layer_detail list"

subsection \<open>Step 1: the design earthquake adjustment coefficient\<close>

definition design_earthquake_adjustment_coefficient_beta :: "pystr \<Rightarrow> pystr \<Rightarrow> real \<Rightarrow> real" where
  "design_earthquake_adjustment_coefficient_beta method grp Ms =
     (if method = py_str ''group'' then
        (if grp = py_str ''1'' then 0.80
         else if grp = py_str ''2'' then 0.95
         else if grp = py_str ''3'' then 1.05
         else 0.80)
      else max 0.80 (min 1.05 (0.20 * Ms - 0.50)))"

subsection \<open>Step 2: the seismic parameters amax and N'\<close>

definition amax_mapping :: "(int \<times> real) list" where
  "amax_mapping = [(7, 0.1), (8, 0.2), (9, 0.4)]"

definition N_prime_mapping :: "(real \<times> real) list" where
  "N_prime_mapping = [(0.10, 16), (0.15, 20), (0.20, 23), (0.30, 31), (0.40, 37)]"

text \<open>\<open>d.get(k, default)\<close> on a dictionary literal.\<close>

definition dict_get :: "('k \<times> 'v) list \<Rightarrow> 'k \<Rightarrow> 'v \<Rightarrow> 'v" where
  "dict_get d k dflt = (case map_of d k of Some v \<Rightarrow> v | None \<Rightarrow> dflt)"

text \<open>Returns the pair (amax, N').\<close>

definition seismic_parameters :: "pystr \<Rightarrow> int \<Rightarrow> real \<Rightarrow> py_error + (real \<times> real)" where
  "seismic_parameters choice intensity amax_input_value =
     (if choice = py_str ''amax'' then
        (let amax = amax_input_value in
         if \<not> (0.09 \<le> amax \<and> amax \<le> 0.41) then Inl (AmaxRangeError amax)
         else Inr (amax, 16))
      else
        (let amax = dict_get amax_mapping intensity 0.1;
             N_prime = dict_get N_prime_mapping amax 16
         in Inr (amax, N_prime)))"

subsection \<open>The body of the loop over the soil layers\<close>

text \<open>Step 1.1: the critical blow count, before the floor at 1.0.\<close>

definition critical_value_Ncr ::
  "pystr \<Rightarrow> pystr \<Rightarrow> real \<Rightarrow> real \<Rightarrow> real \<Rightarrow> real \<Rightarrow> real \<Rightarrow> real \<Rightarrow> py_error + real" where
  "critical_value_Ncr choice content_choice beta amax N_prime dw ds content_value =
     (if choice = py_str ''amax'' then
        (case py_div (69 * amax) (amax + 0.40) of
           Inl e \<Rightarrow> Inl e
         | Inr term1 \<Rightarrow>
            (let term2 = 1 - 0.02 * dw in
             case py_div (0.79 * ds) (ds + 6.2) of
               Inl e \<Rightarrow> Inl e
             | Inr q \<Rightarrow>
                (let term3 = 0.21 + q in
                 if content_choice = rho_c then
                   (case py_div 3 content_value of
                      Inl e \<Rightarrow> Inl e
                    | Inr r \<Rightarrow>
                       (case math_sqrt r of
                          Inl e \<Rightarrow> Inl e
                        | Inr term4 \<Rightarrow> Inr (beta * term1 * term2 * term3 * term4)))
                 else
                   (case py_div 12 (content_value - 3) of
                      Inl e \<Rightarrow> Inl e
                    | Inr r \<Rightarrow>
                       (case math_sqrt r of
                          Inl e \<Rightarrow> Inl e
                        | Inr term4 \<Rightarrow> Inr (term1 * term2 * term3 * term4))))))
      else
        (let term1 = 0.79 * N_prime;
             term2 = 1 - 0.02 * dw
         in case py_div ds (ds + 6.2) of
              Inl e \<Rightarrow> Inl e
            | Inr q \<Rightarrow> Inr (term1 * term2 * (0.27 + q))))"

text \<open>
  Step 1.2: the liquefaction probability. The value is the one of exact real arithmetic;
  the code computes the same expression in doubles, where the subtraction, the product,
  \<open>math.exp\<close>, the sum and the quotient each round. As a function of \<open>N\<close> the real
  value is injective, the double is not, so no property of this definition that rests on
  injectivity or strict monotonicity is claimed of the code.
\<close>

definition liquefaction_probability_PL :: "real \<Rightarrow> real \<Rightarrow> py_error + real" where
  "liquefaction_probability_PL N Ncr =
     (let exponent_term = 0.32 * (N - Ncr) in
      case math_exp exponent_term of
        Inl e \<Rightarrow> Inl e
      | Inr ex \<Rightarrow>
         (case py_div 1.0 (1.0 + ex) of
            Inl e \<Rightarrow> Inl e
          | Inr PL \<Rightarrow> Inr (max 0.0 (min 1.0 PL))))"

text \<open>Step 1.3: the critical value at the liquefaction probability.\<close>

definition critical_value_Ncr_PL :: "real \<Rightarrow> real \<Rightarrow> real \<Rightarrow> py_error + real" where
  "critical_value_Ncr_PL N Ncr PL =
     (case (if PL \<le> 0.001 then Inr (N + 20.0)
            else if PL \<ge> 0.999 then Inr (N - 20.0)
            else (case py_div PL (1.0 - PL) of
                    Inl e \<Rightarrow> Inl e
                  | Inr odds \<Rightarrow>
                     (case math_log odds of
                        Inl e \<Rightarrow> Inl e
                      | Inr l \<Rightarrow> Inr (Ncr - l / 0.32)))) of
        Inl e \<Rightarrow> Inl e
      | Inr Ncr_PL \<Rightarrow> Inr (max 0.1 Ncr_PL))"

text \<open>Step 1.4: the weight of a depth.\<close>

definition weight_wi :: "real \<Rightarrow> real" where
  "weight_wi ds =
     (if ds \<le> 5 then 10.0
      else if ds \<le> 15 then 5.0
      else if ds \<le> 20 then 2.0
      else 0.0)"

text \<open>The standard layer thickness \<open>di\<close>.\<close>

definition di :: real where
  "di = 3.0"

text \<open>
  One pass of the loop body for the layer \<open>l\<close>: the detail dictionary that is appended,
  whose \<open>contribution_value\<close> is what the pass adds to the running total.
\<close>

definition soil_layer_step ::
  "calculation_data \<Rightarrow> real \<Rightarrow> real \<Rightarrow> real \<Rightarrow> soil_layer \<Rightarrow> py_error + layer_detail" where
  "soil_layer_step data beta amax N_prime l =
     (let ds = layer_ds l; N = layer_N l; content_value = layer_content_value l in
      case critical_value_Ncr (acceleration_intensity_choice data) (particle_content_choice data)
             beta amax N_prime (groundwater_depth_dw data) ds content_value of
        Inl e \<Rightarrow> Inl e
      | Inr Ncr0 \<Rightarrow>
         (let Ncr = max 1.0 Ncr0 in
          case liquefaction_probability_PL N Ncr of
            Inl e \<Rightarrow> Inl e
          | Inr PL \<Rightarrow>
             (case critical_value_Ncr_PL N Ncr PL of
                Inl e \<Rightarrow> Inl e
              | Inr Ncr_PL \<Rightarrow>
                 (let wi = weight_wi ds;
                      contribution_value = PL * di * wi
                  in Inr \<lparr>detail_ds = ds, detail_N = N, detail_content_value = content_value,
                          detail_Ncr = Ncr, detail_PL = PL, detail_Ncr_PL = Ncr_PL,
                          detail_wi = wi, detail_contribution_value = contribution_value\<rparr>))))"

text \<open>
  The loop \<open>for soil_layer in soil_layer_data\<close>, with its two accumulators: the list of
  details and the running total of the index.
\<close>

fun soil_layer_loop ::
  "calculation_data \<Rightarrow> real \<Rightarrow> real \<Rightarrow> real \<Rightarrow> soil_layer list \<Rightarrow> layer_detail list \<Rightarrow> real
     \<Rightarrow> py_error + (layer_detail list \<times> real)" where
  "soil_layer_loop data beta amax N_prime [] details running_total = Inr (details, running_total)"
| "soil_layer_loop data beta amax N_prime (l # ls) details running_total =
     (case soil_layer_step data beta amax N_prime l of
        Inl e \<Rightarrow> Inl e
      | Inr d \<Rightarrow>
          soil_layer_loop data beta amax N_prime ls (details @ [d])
            (running_total + detail_contribution_value d))"

subsection \<open>Step 1.5: the grade\<close>

definition grade_determination :: "real \<Rightarrow> int \<Rightarrow> grade" where
  "grade_determination total_liquefaction_index_ILE depth =
     (if total_liquefaction_index_ILE \<le> 0 then No_Liquefaction
      else if depth = 15 then
        (if total_liquefaction_index_ILE \<le> 5 then Slight_Liquefaction
         else if total_liquefaction_index_ILE \<le> 15 then Moderate_Liquefaction
         else Severe_Liquefaction)
      else
        (if total_liquefaction_index_ILE \<le> 6 then Slight_Liquefaction
         else if total_liquefaction_index_ILE \<le> 18 then Moderate_Liquefaction
         else Severe_Liquefaction))"

subsection \<open>The calculation\<close>

definition calculate_liquefaction_index :: "calculation_data \<Rightarrow> py_error + calculation_result" where
  "calculate_liquefaction_index data =
     (let beta = design_earthquake_adjustment_coefficient_beta (beta_calculation_method data)
                   (design_earthquake_group data) (surface_wave_magnitude_Ms data)
      in case seismic_parameters (acceleration_intensity_choice data) (seismic_intensity data)
                (surface_peak_acceleration_amax data) of
           Inl e \<Rightarrow> Inl e
         | Inr (amax, N_prime) \<Rightarrow>
            (case soil_layer_loop data beta amax N_prime (soil_layer_data data) [] 0.0 of
               Inl e \<Rightarrow> Inl e
             | Inr (details, ILE) \<Rightarrow>
                Inr \<lparr>result_seismic_intensity = seismic_intensity data,
                     result_surface_peak_acceleration_amax = surface_peak_acceleration_amax data,
                     result_discrimination_depth = discrimination_depth data,
                     result_groundwater_depth_dw = groundwater_depth_dw data,
                     result_surface_wave_magnitude_Ms = surface_wave_magnitude_Ms data,
                     result_design_earthquake_group = design_earthquake_group data,
                     result_design_earthquake_adjustment_coefficient_beta = beta,
                     result_particle_content_choice = particle_content_choice data,
                     result_acceleration_intensity_choice = acceleration_intensity_choice data,
                     result_beta_calculation_method = beta_calculation_method data,
                     liquefaction_index_ILE = ILE,
                     liquefaction_grade = grade_determination ILE (discrimination_depth data),
                     soil_layer_calculation_details = details\<rparr>))"

subsection \<open>The formulas of the specification\<close>

text \<open>
  The formulas as the specification words them (section 4.2, steps 3 to 5), as total
  functions on the reals. The theorems below relate what the code computes to them.
\<close>

definition spec_Ncr :: "bool \<Rightarrow> bool \<Rightarrow> real \<Rightarrow> real \<Rightarrow> real \<Rightarrow> real \<Rightarrow> real \<Rightarrow> real \<Rightarrow> real" where
  "spec_Ncr amax_mode clay_content beta amax N_prime dw ds content =
     max 1.0
       (if amax_mode then
          (if clay_content then
             beta * (69 * amax / (amax + 0.40)) * (1 - 0.02 * dw)
               * (0.21 + 0.79 * ds / (ds + 6.2)) * sqrt (3 / content)
           else
             (69 * amax / (amax + 0.40)) * (1 - 0.02 * dw)
               * (0.21 + 0.79 * ds / (ds + 6.2)) * sqrt (12 / (content - 3)))
        else 0.79 * N_prime * (1 - 0.02 * dw) * (0.27 + ds / (ds + 6.2)))"

definition spec_PL :: "real \<Rightarrow> real \<Rightarrow> real" where
  "spec_PL N Ncr = max 0 (min 1 (1 / (1 + exp (0.32 * (N - Ncr)))))"

definition spec_Ncr_PL :: "real \<Rightarrow> real \<Rightarrow> real \<Rightarrow> real" where
  "spec_Ncr_PL N Ncr PL =
     max 0.1 (if PL \<le> 0.001 then N + 20.0
              else if PL \<ge> 0.999 then N - 20.0
              else Ncr - ln (PL / (1 - PL)) / 0.32)"

definition spec_wi :: "real \<Rightarrow> real" where
  "spec_wi ds = (if ds \<le> 5 then 10.0 else if ds \<le> 15 then 5.0 else if ds \<le> 20 then 2.0 else 0.0)"

subsection \<open>Example inputs\<close>

text \<open>
  The default site of \<open>_create_default_site_data\<close>, as \<open>get_manual_input_data\<close>
  hands it to the calculation (intensity and depth converted by \<open>int\<close>, the seismic
  parameter value copied into each layer).
\<close>

definition default_layer :: "real \<Rightarrow> real \<Rightarrow> real \<Rightarrow> soil_layer" where
  "default_layer ds N content_value =
     \<lparr>layer_ds = ds, layer_N = N, layer_content_value = content_value,
      layer_seismic_param_value = 0.1\<rparr>"

definition default_site_data :: calculation_data where
  "default_site_data =
     \<lparr>acceleration_intensity_choice = py_str ''amax'',
      seismic_intensity = 7,
      surface_peak_acceleration_amax = 0.1,
      discrimination_depth = 15,
      groundwater_depth_dw = 2.0,
      surface_wave_magnitude_Ms = 6.5,
      design_earthquake_group = py_str ''1'',
      beta_calculation_method = py_str ''group'',
      particle_content_choice = rho_c,
      soil_layer_data =
        [default_layer 1.5 12 3.0, default_layer 4.5 14 3.0, default_layer 7.5 16 3.0,
         default_layer 10.5 18 3.0, default_layer 13.5 20 3.0]\<rparr>"

text \<open>The default site in intensity mode, with intensity 8.\<close>

definition intensity_site_data :: calculation_data where
  "intensity_site_data =
     default_site_data
       \<lparr>acceleration_intensity_choice := py_str ''intensity'',
        seismic_intensity := 8,
        soil_layer_data :=
          map (\<lambda>l. l\<lparr>layer_seismic_param_value := 8\<rparr>) (soil_layer_data default_site_data)\<rparr>"

text \<open>The default site with an earthquake group that is none of "1", "2", "3".\<close>

definition invalid_group_site_data :: calculation_data where
  "invalid_group_site_data = default_site_data\<lparr>design_earthquake_group := py_str ''4''\<rparr>"

subsection \<open>Inputs on which the layer arithmetic raises nothing\<close>

text \<open>
  A condition on a layer that is sufficient for the loop body to raise nothing: no divisor
  is zero, no square root is taken of a negative number, and the blow count is small enough
  for \<open>math.exp\<close> (the critical blow count is at least 1, and
  \<open>0.32 \<cdot> (2219 - 1)\<close> is below the overflow bound).
\<close>

definition layer_computable :: "calculation_data \<Rightarrow> real \<Rightarrow> soil_layer \<Rightarrow> bool" where
  "layer_computable data amax l =
     (layer_ds l + 6.2 \<noteq> 0 \<and> layer_N l \<le> 2219 \<and>
      (if acceleration_intensity_choice data = py_str ''amax'' then
         amax + 0.40 \<noteq> 0 \<and>
         (if particle_content_choice data = rho_c then 0 < layer_content_value l
          else 3 < layer_content_value l)
       else True))"

subsection \<open>The outputs of a result\<close>

text \<open>
  The computed part of a result: the layer details, the index and the grade. The remaining
  fields echo the inputs or report \<open>\<beta>\<close>.
\<close>

definition outputs :: "calculation_result \<Rightarrow> layer_detail list \<times> real \<times> grade" where
  "outputs res = (soil_layer_calculation_details res, liquefaction_index_ILE res, liquefaction_grade res)"

section \<open>Column recognition\<close>

text \<open>
  The characters that the pattern \<open>[^a-zA-Z0-9...]\<close> does not remove: ASCII
  letters and digits and the code points U+4E00 to U+9FA5 (the range in the pattern).
\<close>

definition kept_by_pattern :: "nat \<Rightarrow> bool" where
  "kept_by_pattern c =
     ((97 \<le> c \<and> c \<le> 122) \<or> (65 \<le> c \<and> c \<le> 90) \<or> (48 \<le> c \<and> c \<le> 57) \<or>
      (19968 \<le> c \<and> c \<le> 40869))"

text \<open>
  \<open>str.lower\<close> on a character that the pattern keeps: only the letters A to Z change.
\<close>

definition lower_char :: "nat \<Rightarrow> nat" where
  "lower_char c = (if 65 \<le> c \<and> c \<le> 90 then c + 32 else c)"

definition standardize_text :: "pystr \<Rightarrow> pystr" where
  "standardize_text text =
     (if text = [] then []
      else map lower_char (filter kept_by_pattern text))"

text \<open>The dictionary \<open>self.column_name_mapping\<close>, in the order of its literal.\<close>

definition column_name_mapping :: "(pystr \<times> pystr list) list" where
  "column_name_mapping =
     [(py_str ''Site Number'',
         [py_str ''Site Number'', py_str ''Site ID'', py_str ''Measurement Point Number'',
          py_str ''ID'', py_str ''Point No'', py_str ''Point ID'']),
      (py_str ''Saturated Sand Depth ds(m)'',
         [py_str ''Saturated Sand Depth ds(m)'', py_str ''Saturation Depth(m)'', py_str ''ds'',
          py_str ''Saturated Burial Depth'', py_str ''Sand Depth ds'', py_str ''Burial Depth ds'']),
      (py_str ''Measured SPT Blow Count N'',
         [py_str ''Measured SPT Blow Count N'', py_str ''N value'',
          py_str ''Measured Penetration Value'', py_str ''Standard Penetration N'', py_str ''N'',
          py_str ''Blow Count N'']),
      (py_str ''Clay/Fine Particle Content(%)'',
         [py_str ''Clay Content '' @ rho_c @ py_str ''(%)'', rho_c, py_str ''Clay Content'',
          py_str ''Clay Percentage'', py_str ''Fine Particle Content Fc(%)'', py_str ''Fc'',
          py_str ''Fine Particle Percentage'', py_str ''Fine Particle Content'']),
      (py_str ''Surface Peak Acceleration amax(g)'',
         [py_str ''Surface Peak Acceleration amax(g)'', py_str ''amax'',
          py_str ''Peak Acceleration'', py_str ''Acceleration Peak'']),
      (py_str ''Seismic Intensity'',
         [py_str ''Seismic Intensity'', py_str ''Intensity'', py_str ''Earthquake Grade''])]"

text \<open>
  The dictionary comprehension \<open>{standardize(col): col for col in column_name_list}\<close>: a
  key met again keeps its place and takes the later value.
\<close>

definition standardized_columns_of :: "pystr list \<Rightarrow> (pystr \<times> pystr) list" where
  "standardized_columns_of column_name_list =
     foldl (\<lambda>d col_name. AList.update (standardize_text col_name) col_name d) [] column_name_list"

text \<open>Step 2, the loop over the aliases, left at the first alias that is a key.\<close>

fun alias_match :: "(pystr \<times> pystr) list \<Rightarrow> pystr list \<Rightarrow> pystr option" where
  "alias_match standardized_columns [] = None"
| "alias_match standardized_columns (alias # alias_list) =
     (case map_of standardized_columns (standardize_text alias) of
        Some col \<Rightarrow> Some col
      | None \<Rightarrow> alias_match standardized_columns alias_list)"

text \<open>
  Step 3, the loop over the items of \<open>standardized_columns\<close>, left at the first column
  whose standardized name contains the standardized standard name or a standardized alias.
\<close>

fun fuzzy_match :: "pystr \<Rightarrow> pystr list \<Rightarrow> (pystr \<times> pystr) list \<Rightarrow> pystr option" where
  "fuzzy_match standardized_standard_col alias_list [] = None"
| "fuzzy_match standardized_standard_col alias_list ((standardized_col, original_col_name) # rest) =
     (if sublist standardized_standard_col standardized_col \<or>
         list_ex (\<lambda>alias. sublist (standardize_text alias) standardized_col) alias_list
      then Some original_col_name
      else fuzzy_match standardized_standard_col alias_list rest)"

text \<open>
  The body of the loop over \<open>column_name_mapping\<close>: the value of \<open>best_match\<close> for one
  standard column name. \<open>not best_match\<close> holds for \<open>None\<close> and for the empty string.
\<close>

definition best_match_for :: "(pystr \<times> pystr) list \<Rightarrow> pystr \<Rightarrow> pystr list \<Rightarrow> pystr option" where
  "best_match_for standardized_columns standard_col_name alias_list =
     (let standardized_standard_col = standardize_text standard_col_name in
      case map_of standardized_columns standardized_standard_col of
        Some col \<Rightarrow> Some col
      | None \<Rightarrow>
         (let best_match = alias_match standardized_columns alias_list in
          if best_match = None \<or> best_match = Some [] then
            (case fuzzy_match standardized_standard_col alias_list standardized_columns of
               Some col \<Rightarrow> Some col
             | None \<Rightarrow> best_match)
          else best_match))"

text \<open>\<open>mapping_result\<close>, with its keys in the order of \<open>column_name_mapping\<close>.\<close>

definition auto_recognize_column_names :: "pystr list \<Rightarrow> (pystr \<times> pystr option) list" where
  "auto_recognize_column_names column_name_list =
     (let standardized_columns = standardized_columns_of column_name_list in
      map (\<lambda>(standard_col_name, alias_list).
             (standard_col_name, best_match_for standardized_columns standard_col_name alias_list))
        column_name_mapping)"

section \<open>Properties of the calculation\<close>

subsection \<open>The steps of the loop body\<close>

lemma critical_value_Ncr_PL_eq:
  "critical_value_Ncr_PL N Ncr PL = Inr (spec_Ncr_PL N Ncr PL)"
proof -
  have "1 - PL \<noteq> 0 \<and> \<not> PL / (1 - PL) \<le> 0" if "\<not> PL \<le> 0.001" "\<not> PL \<ge> 0.999"
    using that by (simp add: field_simps)
  then show ?thesis
    by (simp add: critical_value_Ncr_PL_def spec_Ncr_PL_def py_div_def math_log_def)
qed

lemma liquefaction_probability_PL_eq:
  "liquefaction_probability_PL N Ncr =
     (if 0.32 * (N - Ncr) > exp_overflow_bound then Inl OverflowError
      else Inr (spec_PL N Ncr))"
proof -
  have "1 + exp (0.32 * (N - Ncr)) \<noteq> 0"
    using exp_gt_zero [of "0.32 * (N - Ncr)"] by linarith
  then show ?thesis
    by (simp add: liquefaction_probability_PL_def math_exp_def py_div_def Let_def spec_PL_def)
qed

lemma weight_wi_eq: "weight_wi ds = spec_wi ds"
  by (simp add: weight_wi_def spec_wi_def)

lemma soil_layer_loop_Inr:
  "soil_layer_loop data beta amax N_prime ls details running_total = Inr (ds', t') \<Longrightarrow>
   \<exists>new. ds' = details @ new \<and>
     list_all2 (\<lambda>l d. soil_layer_step data beta amax N_prime l = Inr d) ls new \<and>
     t' = running_total + sum_list (map detail_contribution_value new)"
proof (induction ls arbitrary: details running_total)
  case Nil
  then show ?case by simp
next
  case (Cons l ls)
  then obtain d where d: "soil_layer_step data beta amax N_prime l = Inr d"
    and rest: "soil_layer_loop data beta amax N_prime ls (details @ [d])
                 (running_total + detail_contribution_value d) = Inr (ds', t')"
    by (auto split: sum.splits)
  from Cons.IH [OF rest] obtain new where
    "ds' = (details @ [d]) @ new"
    "list_all2 (\<lambda>l d. soil_layer_step data beta amax N_prime l = Inr d) ls new"
    "t' = running_total + detail_contribution_value d + sum_list (map detail_contribution_value new)"
    by blast
  with d show ?case
    by (intro exI [of _ "d # new"]) simp
qed

lemma critical_value_Ncr_Inr:
  assumes "critical_value_Ncr choice content_choice beta amax N_prime dw ds content_value = Inr v"
  shows "max 1 v = spec_Ncr (choice = py_str ''amax'') (content_choice = rho_c)
                     beta amax N_prime dw ds content_value"
  using assms
  by (auto simp: critical_value_Ncr_def spec_Ncr_def py_div_def math_sqrt_def Let_def
           split: if_splits sum.splits)

lemma critical_value_Ncr_succeeds:
  assumes "ds + 6.2 \<noteq> 0"
    and "choice = py_str ''amax'' \<longrightarrow> amax + 0.40 \<noteq> 0 \<and>
           (if content_choice = rho_c then 0 < content_value else 3 < content_value)"
  shows "\<not> isl (critical_value_Ncr choice content_choice beta amax N_prime dw ds content_value)"
proof (cases "choice = py_str ''amax''")
  case True
  with assms show ?thesis
    by (cases "content_choice = rho_c")
       (simp_all add: critical_value_Ncr_def py_div_def math_sqrt_def Let_def)
next
  case False
  with assms show ?thesis
    by (simp add: critical_value_Ncr_def py_div_def Let_def)
qed

lemma soil_layer_step_Inr:
  assumes "soil_layer_step data beta amax N_prime l = Inr d"
  shows "detail_ds d = layer_ds l \<and> detail_N d = layer_N l \<and>
         detail_content_value d = layer_content_value l \<and>
         detail_Ncr d = spec_Ncr (acceleration_intensity_choice data = py_str ''amax'')
                          (particle_content_choice data = rho_c) beta amax N_prime
                          (groundwater_depth_dw data) (layer_ds l) (layer_content_value l) \<and>
         detail_PL d = spec_PL (layer_N l) (detail_Ncr d) \<and>
         detail_Ncr_PL d = spec_Ncr_PL (layer_N l) (detail_Ncr d) (detail_PL d) \<and>
         detail_wi d = spec_wi (layer_ds l) \<and>
         detail_contribution_value d = detail_PL d * 3.0 * detail_wi d \<and>
         0.32 * (layer_N l - detail_Ncr d) \<le> exp_overflow_bound"
proof -
  let ?crit = "critical_value_Ncr (acceleration_intensity_choice data)
     (particle_content_choice data) beta amax N_prime (groundwater_depth_dw data)
     (layer_ds l) (layer_content_value l)"
  obtain Ncr0 where Ncr0: "?crit = Inr Ncr0"
    using assms by (cases ?crit) (simp_all add: soil_layer_step_def Let_def)
  have no_overflow: "\<not> 0.32 * (layer_N l - max 1 Ncr0) > exp_overflow_bound"
    using assms Ncr0
    by (cases "0.32 * (layer_N l - max 1 Ncr0) > exp_overflow_bound")
       (simp_all add: soil_layer_step_def Let_def liquefaction_probability_PL_eq)
  have d: "d = \<lparr>detail_ds = layer_ds l, detail_N = layer_N l,
       detail_content_value = layer_content_value l, detail_Ncr = max 1 Ncr0,
       detail_PL = spec_PL (layer_N l) (max 1 Ncr0),
       detail_Ncr_PL = spec_Ncr_PL (layer_N l) (max 1 Ncr0) (spec_PL (layer_N l) (max 1 Ncr0)),
       detail_wi = spec_wi (layer_ds l),
       detail_contribution_value = spec_PL (layer_N l) (max 1 Ncr0) * 3 * spec_wi (layer_ds l)\<rparr>"
    using assms Ncr0 no_overflow
    by (simp add: soil_layer_step_def Let_def liquefaction_probability_PL_eq
          critical_value_Ncr_PL_eq weight_wi_eq di_def)
  show ?thesis
    using no_overflow critical_value_Ncr_Inr [OF Ncr0] by (simp add: d)
qed

lemma soil_layer_step_succeeds:
  assumes "\<not> isl (critical_value_Ncr (acceleration_intensity_choice data)
             (particle_content_choice data) beta amax N_prime (groundwater_depth_dw data)
             (layer_ds l) (layer_content_value l))"
    and "layer_N l \<le> 2219"
  shows "\<not> isl (soil_layer_step data beta amax N_prime l)"
proof -
  let ?crit = "critical_value_Ncr (acceleration_intensity_choice data)
     (particle_content_choice data) beta amax N_prime (groundwater_depth_dw data)
     (layer_ds l) (layer_content_value l)"
  from assms(1) obtain Ncr0 where Ncr0: "?crit = Inr Ncr0"
    by (cases ?crit) simp_all
  have "0.32 * (layer_N l - max 1 Ncr0) \<le> 0.32 * (2219 - 1)"
    using assms(2) by (simp add: max_def)
  also have "\<dots> \<le> exp_overflow_bound"
    by (simp add: exp_overflow_bound_def)
  finally have "\<not> 0.32 * (layer_N l - max 1 Ncr0) > exp_overflow_bound"
    by simp
  then show ?thesis
    using Ncr0
    by (simp add: soil_layer_step_def Let_def critical_value_Ncr_PL_eq
          liquefaction_probability_PL_eq)
qed

lemma soil_layer_loop_succeeds:
  assumes "list_all (layer_computable data amax) ls"
  shows "\<not> isl (soil_layer_loop data beta amax N_prime ls details running_total)"
  using assms
proof (induction ls arbitrary: details running_total)
  case Nil
  then show ?case by simp
next
  case (Cons l ls)
  then have "layer_computable data amax l" by simp
  then have "\<not> isl (soil_layer_step data beta amax N_prime l)"
    by (intro soil_layer_step_succeeds critical_value_Ncr_succeeds)
       (simp_all add: layer_computable_def split: if_splits)
  then obtain d where "soil_layer_step data beta amax N_prime l = Inr d"
    by (cases "soil_layer_step data beta amax N_prime l") simp_all
  with Cons show ?case by simp
qed

subsection \<open>The whole calculation\<close>

lemma calculate_liquefaction_index_Inr:
  assumes "calculate_liquefaction_index data = Inr res"
  shows "\<exists>amax N_prime.
           seismic_parameters (acceleration_intensity_choice data) (seismic_intensity data)
             (surface_peak_acceleration_amax data) = Inr (amax, N_prime) \<and>
           list_all2
             (\<lambda>l d. soil_layer_step data
                        (result_design_earthquake_adjustment_coefficient_beta res)
                        amax N_prime l = Inr d)
             (soil_layer_data data) (soil_layer_calculation_details res) \<and>
           result_design_earthquake_adjustment_coefficient_beta res =
             design_earthquake_adjustment_coefficient_beta (beta_calculation_method data)
               (design_earthquake_group data) (surface_wave_magnitude_Ms data) \<and>
           liquefaction_index_ILE res =
             sum_list (map detail_contribution_value (soil_layer_calculation_details res)) \<and>
           liquefaction_grade res =
             grade_determination (liquefaction_index_ILE res) (discrimination_depth data)"
proof -
  let ?beta = "design_earthquake_adjustment_coefficient_beta (beta_calculation_method data)
                 (design_earthquake_group data) (surface_wave_magnitude_Ms data)"
  let ?sp = "seismic_parameters (acceleration_intensity_choice data) (seismic_intensity data)
               (surface_peak_acceleration_amax data)"
  obtain amax N_prime where sp: "?sp = Inr (amax, N_prime)"
    using assms by (cases ?sp) (auto simp: calculate_liquefaction_index_def Let_def)
  let ?loop = "soil_layer_loop data ?beta amax N_prime (soil_layer_data data) [] 0.0"
  obtain details ILE where loop: "?loop = Inr (details, ILE)"
    using assms sp by (cases ?loop) (auto simp: calculate_liquefaction_index_def Let_def)
  have res: "result_design_earthquake_adjustment_coefficient_beta res = ?beta"
    "soil_layer_calculation_details res = details"
    "liquefaction_index_ILE res = ILE"
    "liquefaction_grade res = grade_determination ILE (discrimination_depth data)"
    using assms sp loop by (auto simp: calculate_liquefaction_index_def Let_def)
  from soil_layer_loop_Inr [OF loop] have
    "list_all2 (\<lambda>l d. soil_layer_step data ?beta amax N_prime l = Inr d)
       (soil_layer_data data) details"
    "ILE = sum_list (map detail_contribution_value details)"
    by auto
  with sp res show ?thesis by auto
qed

lemma calculate_liquefaction_index_succeeds:
  assumes "seismic_parameters (acceleration_intensity_choice data) (seismic_intensity data)
             (surface_peak_acceleration_amax data) = Inr (amax, N_prime)"
    and "list_all (layer_computable data amax) (soil_layer_data data)"
  shows "\<not> isl (calculate_liquefaction_index data)"
proof -
  let ?beta = "design_earthquake_adjustment_coefficient_beta (beta_calculation_method data)
                 (design_earthquake_group data) (surface_wave_magnitude_Ms data)"
  let ?loop = "soil_layer_loop data ?beta amax N_prime (soil_layer_data data) [] 0.0"
  have "\<not> isl ?loop"
    using assms(2) by (rule soil_layer_loop_succeeds)
  then obtain r where "?loop = Inr r"
    by (cases ?loop) simp_all
  then show ?thesis
    using assms(1)
    by (cases r) (simp add: calculate_liquefaction_index_def Let_def)
qed

lemma projr_eq: "\<not> isl x \<Longrightarrow> x = Inr (projr x)"
  by (cases x) simp_all

lemma string_simps:
  "py_str ''amax'' \<noteq> py_str ''intensity''"
  "py_str ''group'' \<noteq> py_str ''formula''"
  "py_str ''1'' \<noteq> py_str ''2''" "py_str ''1'' \<noteq> py_str ''3''" "py_str ''2'' \<noteq> py_str ''3''"
  "py_str ''Fc'' \<noteq> rho_c"
  by (simp_all add: py_str_def rho_c_def)

lemma default_site_data_succeeds:
  assumes "0.09 \<le> a" "a \<le> 0.41"
  shows "\<not> isl (calculate_liquefaction_index (default_site_data\<lparr>surface_peak_acceleration_amax := a\<rparr>))"
proof (rule calculate_liquefaction_index_succeeds)
  show "seismic_parameters
     (acceleration_intensity_choice (default_site_data\<lparr>surface_peak_acceleration_amax := a\<rparr>))
     (seismic_intensity (default_site_data\<lparr>surface_peak_acceleration_amax := a\<rparr>))
     (surface_peak_acceleration_amax (default_site_data\<lparr>surface_peak_acceleration_amax := a\<rparr>))
     = Inr (a, 16)"
    using assms by (simp add: seismic_parameters_def default_site_data_def)
  show "list_all (layer_computable (default_site_data\<lparr>surface_peak_acceleration_amax := a\<rparr>) a)
     (soil_layer_data (default_site_data\<lparr>surface_peak_acceleration_amax := a\<rparr>))"
    using assms by (simp add: layer_computable_def default_site_data_def default_layer_def)
qed

lemma spec_PL_bounds: "0 \<le> spec_PL N Ncr \<and> spec_PL N Ncr \<le> 1"
  by (simp add: spec_PL_def)

lemma calculated_length:
  assumes "calculate_liquefaction_index data = Inr res"
  shows "length (soil_layer_calculation_details res) = length (soil_layer_data data)"
  using calculate_liquefaction_index_Inr [OF assms] by (auto dest: list_all2_lengthD)

lemma calculated_layer:
  assumes "calculate_liquefaction_index data = Inr res"
    and "i < length (soil_layer_data data)"
  shows "\<exists>amax N_prime.
           seismic_parameters (acceleration_intensity_choice data) (seismic_intensity data)
             (surface_peak_acceleration_amax data) = Inr (amax, N_prime) \<and>
           soil_layer_step data (result_design_earthquake_adjustment_coefficient_beta res)
             amax N_prime (soil_layer_data data ! i)
             = Inr (soil_layer_calculation_details res ! i)"
proof -
  from calculate_liquefaction_index_Inr [OF assms(1)] obtain amax N_prime where
    sp: "seismic_parameters (acceleration_intensity_choice data) (seismic_intensity data)
             (surface_peak_acceleration_amax data) = Inr (amax, N_prime)"
    and all: "list_all2
             (\<lambda>l d. soil_layer_step data
                        (result_design_earthquake_adjustment_coefficient_beta res)
                        amax N_prime l = Inr d)
             (soil_layer_data data) (soil_layer_calculation_details res)"
    by blast
  from all assms(2) have "soil_layer_step data
      (result_design_earthquake_adjustment_coefficient_beta res) amax N_prime
      (soil_layer_data data ! i) = Inr (soil_layer_calculation_details res ! i)"
    by (rule list_all2_nthD)
  with sp show ?thesis
    by blast
qed

text \<open>
  Claim C8. Every layer result that the calculation produces has a liquefaction probability
  in [0,1], a critical blow count of at least 1.0, a probability-specific critical value of
  at least 0.1 and a weight among 0, 2, 5 and 10. This holds for every input on which the
  calculation returns, the valid site records among them.
\<close>

theorem layer_result_bounds:
  assumes "calculate_liquefaction_index data = Inr res"
    and "i < length (soil_layer_calculation_details res)"
  shows "0 \<le> detail_PL (soil_layer_calculation_details res ! i) \<and>
         detail_PL (soil_layer_calculation_details res ! i) \<le> 1 \<and>
         1.0 \<le> detail_Ncr (soil_layer_calculation_details res ! i) \<and>
         0.1 \<le> detail_Ncr_PL (soil_layer_calculation_details res ! i) \<and>
         detail_wi (soil_layer_calculation_details res ! i) \<in> {0, 2, 5, 10}"
proof -
  from assms(2) have i: "i < length (soil_layer_data data)"
    by (simp add: calculated_length [OF assms(1)])
  from calculated_layer [OF assms(1) i] obtain amax N_prime where
    "soil_layer_step data (result_design_earthquake_adjustment_coefficient_beta res)
       amax N_prime (soil_layer_data data ! i) = Inr (soil_layer_calculation_details res ! i)"
    by blast
  note s = soil_layer_step_Inr [OF this]
  let ?d = "soil_layer_calculation_details res ! i"
  have "0 \<le> detail_PL ?d \<and> detail_PL ?d \<le> 1"
    using s spec_PL_bounds by simp
  moreover have "1.0 \<le> detail_Ncr ?d"
    using s by (simp add: spec_Ncr_def)
  moreover have "0.1 \<le> detail_Ncr_PL ?d"
    using s by (simp add: spec_Ncr_PL_def)
  moreover have "detail_wi ?d \<in> {0, 2, 5, 10}"
    using s by (simp add: spec_wi_def)
  ultimately show ?thesis by blast
qed

theorem layer_result_bounds_witness:
  "0 \<le> detail_PL (soil_layer_calculation_details
            (projr (calculate_liquefaction_index default_site_data)) ! 0) \<and>
   detail_PL (soil_layer_calculation_details
            (projr (calculate_liquefaction_index default_site_data)) ! 0) \<le> 1 \<and>
   1.0 \<le> detail_Ncr (soil_layer_calculation_details
            (projr (calculate_liquefaction_index default_site_data)) ! 0) \<and>
   0.1 \<le> detail_Ncr_PL (soil_layer_calculation_details
            (projr (calculate_liquefaction_index default_site_data)) ! 0) \<and>
   detail_wi (soil_layer_calculation_details
            (projr (calculate_liquefaction_index default_site_data)) ! 0) \<in> {0, 2, 5, 10}"
proof -
  have "\<not> isl (calculate_liquefaction_index
          (default_site_data\<lparr>surface_peak_acceleration_amax := 0.1\<rparr>))"
    by (rule default_site_data_succeeds) simp_all
  then have ok: "calculate_liquefaction_index default_site_data =
      Inr (projr (calculate_liquefaction_index default_site_data))"
    by (intro projr_eq) (simp add: default_site_data_def)
  have "length (soil_layer_calculation_details
     (projr (calculate_liquefaction_index default_site_data))) = 5"
    using calculated_length [OF ok] by (simp add: default_site_data_def)
  then have "0 < length (soil_layer_calculation_details
     (projr (calculate_liquefaction_index default_site_data)))"
    by simp
  from layer_result_bounds [OF ok this] show ?thesis .
qed

lemma seismic_parameters_Inr:
  assumes "seismic_parameters choice intensity amax_input_value = Inr (amax, N_prime)"
  shows "if choice = py_str ''amax'' then amax = amax_input_value \<and> 0.09 \<le> amax \<and> amax \<le> 0.41
         else amax = dict_get amax_mapping intensity 0.1 \<and>
              N_prime = dict_get N_prime_mapping amax 16"
  using assms by (auto simp: seismic_parameters_def Let_def split: if_splits)

text \<open>
  Claim C2. In every result of the calculation, the critical blow count of layer \<open>i\<close> is
  the formula selected by the modes, floored at 1.0: with amax and clay content,
  \<open>\<beta> \<cdot> (69 amax / (amax + 0.40)) \<cdot> (1 - 0.02 dw) \<cdot> (0.21 + 0.79 ds / (ds + 6.2)) \<cdot> sqrt (3 / content)\<close>;
  with amax and fine content, the same first three factors without \<open>\<beta>\<close>, times
  \<open>sqrt (12 / (content - 3))\<close>; with intensity, whatever the content mode,
  \<open>0.79 N' \<cdot> (1 - 0.02 dw) \<cdot> (0.27 + ds / (ds + 6.2))\<close>.
\<close>

theorem critical_blow_count_formula:
  assumes "calculate_liquefaction_index data = Inr res"
    and "i < length (soil_layer_data data)"
  shows "detail_Ncr (soil_layer_calculation_details res ! i) =
     (let ds = layer_ds (soil_layer_data data ! i);
          content = layer_content_value (soil_layer_data data ! i);
          dw = groundwater_depth_dw data;
          beta = result_design_earthquake_adjustment_coefficient_beta res;
          amax = surface_peak_acceleration_amax data;
          N_prime = dict_get N_prime_mapping (dict_get amax_mapping (seismic_intensity data) 0.1) 16
      in max 1.0
          (if acceleration_intensity_choice data = py_str ''amax'' then
             (if particle_content_choice data = rho_c then
                beta * (69 * amax / (amax + 0.40)) * (1 - 0.02 * dw)
                  * (0.21 + 0.79 * ds / (ds + 6.2)) * sqrt (3 / content)
              else
                (69 * amax / (amax + 0.40)) * (1 - 0.02 * dw)
                  * (0.21 + 0.79 * ds / (ds + 6.2)) * sqrt (12 / (content - 3)))
           else 0.79 * N_prime * (1 - 0.02 * dw) * (0.27 + ds / (ds + 6.2))))"
proof -
  from calculated_layer [OF assms] obtain amax N_prime where
    sp: "seismic_parameters (acceleration_intensity_choice data) (seismic_intensity data)
           (surface_peak_acceleration_amax data) = Inr (amax, N_prime)"
    and step: "soil_layer_step data (result_design_earthquake_adjustment_coefficient_beta res)
           amax N_prime (soil_layer_data data ! i) = Inr (soil_layer_calculation_details res ! i)"
    by blast
  note Ncr = soil_layer_step_Inr [OF step, THEN conjunct2, THEN conjunct2, THEN conjunct2,
      THEN conjunct1]
  show ?thesis
  proof (cases "acceleration_intensity_choice data = py_str ''amax''")
    case True
    with seismic_parameters_Inr [OF sp] have "amax = surface_peak_acceleration_amax data"
      by simp
    with True Ncr show ?thesis
      by (simp add: spec_Ncr_def Let_def)
  next
    case False
    with seismic_parameters_Inr [OF sp] have
      "N_prime = dict_get N_prime_mapping (dict_get amax_mapping (seismic_intensity data) 0.1) 16"
      by simp
    with False Ncr show ?thesis
      by (simp add: spec_Ncr_def Let_def)
  qed
qed

lemma default_site_data_ok:
  "calculate_liquefaction_index default_site_data =
     Inr (projr (calculate_liquefaction_index default_site_data))"
proof -
  have "\<not> isl (calculate_liquefaction_index
          (default_site_data\<lparr>surface_peak_acceleration_amax := 0.1\<rparr>))"
    by (rule default_site_data_succeeds) simp_all
  then show ?thesis
    by (intro projr_eq) (simp add: default_site_data_def)
qed

lemma calculated_beta:
  assumes "calculate_liquefaction_index data = Inr res"
  shows "result_design_earthquake_adjustment_coefficient_beta res =
           design_earthquake_adjustment_coefficient_beta (beta_calculation_method data)
             (design_earthquake_group data) (surface_wave_magnitude_Ms data)"
  using calculate_liquefaction_index_Inr [OF assms] by blast

lemma default_site_data_beta:
  "result_design_earthquake_adjustment_coefficient_beta
     (projr (calculate_liquefaction_index default_site_data)) = 0.8"
  by (simp add: calculated_beta [OF default_site_data_ok])
     (simp add: default_site_data_def design_earthquake_adjustment_coefficient_beta_def)

theorem critical_blow_count_formula_witness:
  "detail_Ncr (soil_layer_calculation_details
      (projr (calculate_liquefaction_index default_site_data)) ! 0) =
   max 1.0 (0.8 * (69 * 0.1 / (0.1 + 0.40)) * (1 - 0.02 * 2.0)
              * (0.21 + 0.79 * 1.5 / (1.5 + 6.2)) * sqrt (3 / 3.0))"
proof -
  have i: "0 < length (soil_layer_data default_site_data)"
    by (simp add: default_site_data_def)
  show ?thesis
    using critical_blow_count_formula [OF default_site_data_ok i]
    by (simp add: default_site_data_beta Let_def)
       (simp add: default_site_data_def default_layer_def)
qed

text \<open>
  Claim C5. In every result of the calculation, the liquefaction probability of a layer is
  \<open>PL = 1 / (1 + exp (0.32 (N - Ncr)))\<close> clamped to [0,1], and its probability-specific
  critical value is \<open>N + 20\<close> when \<open>PL \<le> 0.001\<close>, \<open>N - 20\<close> when \<open>PL \<ge> 0.999\<close>, and
  \<open>Ncr - ln (PL / (1 - PL)) / 0.32\<close> otherwise, floored at 0.1.
\<close>

theorem probability_and_probability_critical_value:
  assumes "calculate_liquefaction_index data = Inr res"
    and "i < length (soil_layer_data data)"
  shows
    "(let N = layer_N (soil_layer_data data ! i);
          Ncr = detail_Ncr (soil_layer_calculation_details res ! i);
          PL = detail_PL (soil_layer_calculation_details res ! i);
          Ncr_PL = detail_Ncr_PL (soil_layer_calculation_details res ! i)
      in PL = max 0 (min 1 (1 / (1 + exp (0.32 * (N - Ncr))))) \<and>
         Ncr_PL = max 0.1 (if PL \<le> 0.001 then N + 20.0
                           else if PL \<ge> 0.999 then N - 20.0
                           else Ncr - ln (PL / (1 - PL)) / 0.32))"
proof -
  from calculated_layer [OF assms] obtain amax N_prime where
    "soil_layer_step data (result_design_earthquake_adjustment_coefficient_beta res)
       amax N_prime (soil_layer_data data ! i) = Inr (soil_layer_calculation_details res ! i)"
    by blast
  from soil_layer_step_Inr [OF this] have
    "detail_PL (soil_layer_calculation_details res ! i) =
       spec_PL (layer_N (soil_layer_data data ! i))
         (detail_Ncr (soil_layer_calculation_details res ! i))"
    "detail_Ncr_PL (soil_layer_calculation_details res ! i) =
       spec_Ncr_PL (layer_N (soil_layer_data data ! i))
         (detail_Ncr (soil_layer_calculation_details res ! i))
         (detail_PL (soil_layer_calculation_details res ! i))"
    by simp_all
  then show ?thesis
    unfolding Let_def spec_PL_def spec_Ncr_PL_def by simp
qed

theorem probability_and_probability_critical_value_witness:
  "(let N = 12;
        Ncr = detail_Ncr (soil_layer_calculation_details
                (projr (calculate_liquefaction_index default_site_data)) ! 0);
        PL = detail_PL (soil_layer_calculation_details
                (projr (calculate_liquefaction_index default_site_data)) ! 0);
        Ncr_PL = detail_Ncr_PL (soil_layer_calculation_details
                (projr (calculate_liquefaction_index default_site_data)) ! 0)
    in PL = max 0 (min 1 (1 / (1 + exp (0.32 * (N - Ncr))))) \<and>
       Ncr_PL = max 0.1 (if PL \<le> 0.001 then N + 20.0
                         else if PL \<ge> 0.999 then N - 20.0
                         else Ncr - ln (PL / (1 - PL)) / 0.32))"
proof -
  have i: "0 < length (soil_layer_data default_site_data)"
    by (simp add: default_site_data_def)
  have N: "layer_N (soil_layer_data default_site_data ! 0) = 12"
    by (simp add: default_site_data_def default_layer_def)
  show ?thesis
    using probability_and_probability_critical_value [OF default_site_data_ok i]
    unfolding N .
qed

text \<open>
  Claim C3. In every result of the calculation, the weight of a layer is the step function
  of its depth (10 up to 5 m, 5 up to 15 m, 2 up to 20 m, 0 beyond), its contribution is
  \<open>PL \<times> 3.0 \<times> wi\<close>, the index ILE is the sum of the contributions of all layers, and the
  grade follows the thresholds 5 and 15 at discrimination depth 15, and 6 and 18 at any
  other depth (20 in particular), with no liquefaction when the index is not positive. The
  boundary values are graded as the specification lists them.
\<close>

theorem weights_index_and_grade:
  assumes "calculate_liquefaction_index data = Inr res"
  shows
    "(\<forall>i < length (soil_layer_data data).
        detail_wi (soil_layer_calculation_details res ! i) =
          (let ds = layer_ds (soil_layer_data data ! i)
           in if ds \<le> 5 then 10.0 else if ds \<le> 15 then 5.0 else if ds \<le> 20 then 2.0 else 0.0) \<and>
        detail_contribution_value (soil_layer_calculation_details res ! i) =
          detail_PL (soil_layer_calculation_details res ! i) * 3.0
            * detail_wi (soil_layer_calculation_details res ! i)) \<and>
     length (soil_layer_calculation_details res) = length (soil_layer_data data) \<and>
     liquefaction_index_ILE res =
       sum_list (map detail_contribution_value (soil_layer_calculation_details res)) \<and>
     liquefaction_grade res =
       (let ILE = liquefaction_index_ILE res
        in if ILE \<le> 0 then No_Liquefaction
           else if discrimination_depth data = 15 then
             (if ILE \<le> 5 then Slight_Liquefaction
              else if ILE \<le> 15 then Moderate_Liquefaction else Severe_Liquefaction)
           else
             (if ILE \<le> 6 then Slight_Liquefaction
              else if ILE \<le> 18 then Moderate_Liquefaction else Severe_Liquefaction)) \<and>
     grade_determination 5.000 15 = Slight_Liquefaction \<and>
     grade_determination 5.0001 15 = Moderate_Liquefaction \<and>
     grade_determination 15.000 15 = Moderate_Liquefaction \<and>
     grade_determination 15.0001 15 = Severe_Liquefaction \<and>
     grade_determination 0 15 = No_Liquefaction \<and>
     grade_determination 6 20 = Slight_Liquefaction \<and>
     grade_determination 6.0001 20 = Moderate_Liquefaction \<and>
     grade_determination 18 20 = Moderate_Liquefaction \<and>
     grade_determination 18.0001 20 = Severe_Liquefaction"
proof -
  have layers: "detail_wi (soil_layer_calculation_details res ! i) =
          (let ds = layer_ds (soil_layer_data data ! i)
           in if ds \<le> 5 then 10.0 else if ds \<le> 15 then 5.0 else if ds \<le> 20 then 2.0 else 0.0) \<and>
        detail_contribution_value (soil_layer_calculation_details res ! i) =
          detail_PL (soil_layer_calculation_details res ! i) * 3.0
            * detail_wi (soil_layer_calculation_details res ! i)"
    if "i < length (soil_layer_data data)" for i
  proof -
    from calculated_layer [OF assms that] obtain amax N_prime where
      "soil_layer_step data (result_design_earthquake_adjustment_coefficient_beta res)
         amax N_prime (soil_layer_data data ! i) = Inr (soil_layer_calculation_details res ! i)"
      by blast
    from soil_layer_step_Inr [OF this] have
      "detail_wi (soil_layer_calculation_details res ! i) = spec_wi (layer_ds (soil_layer_data data ! i))"
      "detail_contribution_value (soil_layer_calculation_details res ! i) =
          detail_PL (soil_layer_calculation_details res ! i) * 3.0
            * detail_wi (soil_layer_calculation_details res ! i)"
      by simp_all
    then show ?thesis
      unfolding Let_def spec_wi_def by simp
  qed
  from calculate_liquefaction_index_Inr [OF assms] have
    ILE: "liquefaction_index_ILE res =
       sum_list (map detail_contribution_value (soil_layer_calculation_details res))"
    and grade: "liquefaction_grade res =
       grade_determination (liquefaction_index_ILE res) (discrimination_depth data)"
    by blast+
  have grade': "liquefaction_grade res =
       (let ILE = liquefaction_index_ILE res
        in if ILE \<le> 0 then No_Liquefaction
           else if discrimination_depth data = 15 then
             (if ILE \<le> 5 then Slight_Liquefaction
              else if ILE \<le> 15 then Moderate_Liquefaction else Severe_Liquefaction)
           else
             (if ILE \<le> 6 then Slight_Liquefaction
              else if ILE \<le> 18 then Moderate_Liquefaction else Severe_Liquefaction))"
    unfolding grade grade_determination_def Let_def by (rule refl)
  have boundaries:
     "grade_determination 5.000 15 = Slight_Liquefaction"
     "grade_determination 5.0001 15 = Moderate_Liquefaction"
     "grade_determination 15.000 15 = Moderate_Liquefaction"
     "grade_determination 15.0001 15 = Severe_Liquefaction"
     "grade_determination 0 15 = No_Liquefaction"
     "grade_determination 6 20 = Slight_Liquefaction"
     "grade_determination 6.0001 20 = Moderate_Liquefaction"
     "grade_determination 18 20 = Moderate_Liquefaction"
     "grade_determination 18.0001 20 = Severe_Liquefaction"
    by (simp_all add: grade_determination_def)
  from layers ILE grade' boundaries calculated_length [OF assms] show ?thesis
    by blast
qed

theorem weights_index_and_grade_witness:
  "detail_wi (soil_layer_calculation_details
      (projr (calculate_liquefaction_index default_site_data)) ! 0) = 10.0 \<and>
   detail_contribution_value (soil_layer_calculation_details
      (projr (calculate_liquefaction_index default_site_data)) ! 0) =
     detail_PL (soil_layer_calculation_details
       (projr (calculate_liquefaction_index default_site_data)) ! 0) * 3.0 * 10.0 \<and>
   length (soil_layer_calculation_details
      (projr (calculate_liquefaction_index default_site_data))) = 5 \<and>
   liquefaction_index_ILE (projr (calculate_liquefaction_index default_site_data)) =
     sum_list (map detail_contribution_value (soil_layer_calculation_details
       (projr (calculate_liquefaction_index default_site_data)))) \<and>
   liquefaction_grade (projr (calculate_liquefaction_index default_site_data)) =
     (let ILE = liquefaction_index_ILE (projr (calculate_liquefaction_index default_site_data))
      in if ILE \<le> 0 then No_Liquefaction
         else if ILE \<le> 5 then Slight_Liquefaction
         else if ILE \<le> 15 then Moderate_Liquefaction else Severe_Liquefaction)"
proof -
  note w = weights_index_and_grade [OF default_site_data_ok]
  have i: "0 < length (soil_layer_data default_site_data)"
    by (simp add: default_site_data_def)
  have ds: "layer_ds (soil_layer_data default_site_data ! 0) = 1.5"
    "discrimination_depth default_site_data = 15"
    "length (soil_layer_data default_site_data) = 5"
    by (simp_all add: default_site_data_def default_layer_def)
  from w i have "detail_wi (soil_layer_calculation_details
      (projr (calculate_liquefaction_index default_site_data)) ! 0) =
          (let ds = layer_ds (soil_layer_data default_site_data ! 0)
           in if ds \<le> 5 then 10.0 else if ds \<le> 15 then 5.0 else if ds \<le> 20 then 2.0 else 0.0) \<and>
        detail_contribution_value (soil_layer_calculation_details
      (projr (calculate_liquefaction_index default_site_data)) ! 0) =
          detail_PL (soil_layer_calculation_details
      (projr (calculate_liquefaction_index default_site_data)) ! 0) * 3.0
            * detail_wi (soil_layer_calculation_details
      (projr (calculate_liquefaction_index default_site_data)) ! 0)"
    by blast
  then have layer0: "detail_wi (soil_layer_calculation_details
      (projr (calculate_liquefaction_index default_site_data)) ! 0) = 10.0"
    "detail_contribution_value (soil_layer_calculation_details
      (projr (calculate_liquefaction_index default_site_data)) ! 0) =
     detail_PL (soil_layer_calculation_details
       (projr (calculate_liquefaction_index default_site_data)) ! 0) * 3.0 * 10.0"
    by (simp_all add: ds)
  from w have rest: "length (soil_layer_calculation_details
      (projr (calculate_liquefaction_index default_site_data))) = 5"
    "liquefaction_index_ILE (projr (calculate_liquefaction_index default_site_data)) =
     sum_list (map detail_contribution_value (soil_layer_calculation_details
       (projr (calculate_liquefaction_index default_site_data))))"
    "liquefaction_grade (projr (calculate_liquefaction_index default_site_data)) =
     (let ILE = liquefaction_index_ILE (projr (calculate_liquefaction_index default_site_data))
      in if ILE \<le> 0 then No_Liquefaction
         else if ILE \<le> 5 then Slight_Liquefaction
         else if ILE \<le> 15 then Moderate_Liquefaction else Severe_Liquefaction)"
    by (simp_all add: ds cong: if_cong)
  from layer0 rest show ?thesis by blast
qed

lemma soil_layer_step_intensity:
  assumes "acceleration_intensity_choice data \<noteq> py_str ''amax''"
    and "acceleration_intensity_choice data' = acceleration_intensity_choice data"
    and "groundwater_depth_dw data' = groundwater_depth_dw data"
  shows "soil_layer_step data' beta' amax' N_prime l = soil_layer_step data beta amax N_prime l"
proof -
  have "critical_value_Ncr (acceleration_intensity_choice data') (particle_content_choice data')
          beta' amax' N_prime (groundwater_depth_dw data') (layer_ds l) (layer_content_value l) =
        critical_value_Ncr (acceleration_intensity_choice data) (particle_content_choice data)
          beta amax N_prime (groundwater_depth_dw data) (layer_ds l) (layer_content_value l)"
    using assms by (simp add: critical_value_Ncr_def)
  then show ?thesis
    by (simp add: soil_layer_step_def Let_def)
qed

lemma soil_layer_loop_intensity:
  assumes "acceleration_intensity_choice data \<noteq> py_str ''amax''"
    and "acceleration_intensity_choice data' = acceleration_intensity_choice data"
    and "groundwater_depth_dw data' = groundwater_depth_dw data"
  shows "soil_layer_loop data' beta' amax' N_prime ls details running_total =
         soil_layer_loop data beta amax N_prime ls details running_total"
proof (induction ls arbitrary: details running_total)
  case Nil
  show ?case by simp
next
  case (Cons l ls)
  have "soil_layer_step data' beta' amax' N_prime l = soil_layer_step data beta amax N_prime l"
    by (rule soil_layer_step_intensity [OF assms])
  then show ?case
    by (simp add: Cons.IH cong: sum.case_cong)
qed

text \<open>
  Claim C10. In intensity mode the layer details (Ncr, PL, Ncr_PL, wi, contribution), the
  index ILE and the grade do not depend on the beta method, the earthquake group, the
  surface wave magnitude or the amax input: two runs that differ only in these fields raise
  the same exception or return the same outputs.
\<close>

theorem intensity_mode_ignores_beta_inputs:
  assumes "acceleration_intensity_choice data \<noteq> py_str ''amax''"
  shows "map_sum id outputs
           (calculate_liquefaction_index
              (data\<lparr>beta_calculation_method := method', design_earthquake_group := group',
                    surface_wave_magnitude_Ms := Ms', surface_peak_acceleration_amax := amax'\<rparr>)) =
         map_sum id outputs (calculate_liquefaction_index data)"
proof -
  let ?data' = "data\<lparr>beta_calculation_method := method', design_earthquake_group := group',
                    surface_wave_magnitude_Ms := Ms', surface_peak_acceleration_amax := amax'\<rparr>"
  let ?beta = "design_earthquake_adjustment_coefficient_beta (beta_calculation_method data)
                 (design_earthquake_group data) (surface_wave_magnitude_Ms data)"
  let ?beta' = "design_earthquake_adjustment_coefficient_beta method' group' Ms'"
  let ?amax = "dict_get amax_mapping (seismic_intensity data) 0.1"
  let ?N = "dict_get N_prime_mapping ?amax 16"
  have sp: "seismic_parameters (acceleration_intensity_choice data) (seismic_intensity data) a
            = Inr (?amax, ?N)" for a
    using assms by (simp add: seismic_parameters_def Let_def)
  have loop: "soil_layer_loop ?data' ?beta' ?amax ?N (soil_layer_data data) [] 0 =
              soil_layer_loop data ?beta ?amax ?N (soil_layer_data data) [] 0"
    by (rule soil_layer_loop_intensity [OF assms]) simp_all
  show ?thesis
  proof (cases "soil_layer_loop data ?beta ?amax ?N (soil_layer_data data) [] 0")
    case (Inl e)
    then show ?thesis
      by (simp add: calculate_liquefaction_index_def Let_def sp loop)
  next
    case (Inr r)
    then show ?thesis
      by (cases r) (simp add: calculate_liquefaction_index_def Let_def sp loop outputs_def)
  qed
qed

lemma intensity_site_data_succeeds:
  "\<not> isl (calculate_liquefaction_index intensity_site_data)"
proof (rule calculate_liquefaction_index_succeeds)
  show "seismic_parameters (acceleration_intensity_choice intensity_site_data)
     (seismic_intensity intensity_site_data)
     (surface_peak_acceleration_amax intensity_site_data) = Inr (0.2, 23)"
    by (simp add: seismic_parameters_def intensity_site_data_def default_site_data_def
          py_str_def dict_get_def amax_mapping_def N_prime_mapping_def)
  show "list_all (layer_computable intensity_site_data 0.2) (soil_layer_data intensity_site_data)"
    by (simp add: layer_computable_def intensity_site_data_def default_site_data_def
          default_layer_def py_str_def)
qed

theorem intensity_mode_ignores_beta_inputs_witness:
  "map_sum id outputs
     (calculate_liquefaction_index
        (intensity_site_data\<lparr>beta_calculation_method := py_str ''formula'',
           design_earthquake_group := py_str ''3'', surface_wave_magnitude_Ms := 7.5,
           surface_peak_acceleration_amax := 0.3\<rparr>)) =
   map_sum id outputs (calculate_liquefaction_index intensity_site_data) \<and>
   \<not> isl (calculate_liquefaction_index intensity_site_data)"
proof
  have "acceleration_intensity_choice intensity_site_data \<noteq> py_str ''amax''"
    by (simp add: intensity_site_data_def py_str_def)
  then show "map_sum id outputs
     (calculate_liquefaction_index
        (intensity_site_data\<lparr>beta_calculation_method := py_str ''formula'',
           design_earthquake_group := py_str ''3'', surface_wave_magnitude_Ms := 7.5,
           surface_peak_acceleration_amax := 0.3\<rparr>)) =
   map_sum id outputs (calculate_liquefaction_index intensity_site_data)"
    by (rule intensity_mode_ignores_beta_inputs)
  show "\<not> isl (calculate_liquefaction_index intensity_site_data)"
    by (rule intensity_site_data_succeeds)
qed

lemma soil_layer_step_cong:
  assumes "acceleration_intensity_choice data' = acceleration_intensity_choice data"
    and "particle_content_choice data' = particle_content_choice data"
    and "groundwater_depth_dw data' = groundwater_depth_dw data"
  shows "soil_layer_step data' beta amax N_prime l = soil_layer_step data beta amax N_prime l"
  using assms by (simp add: soil_layer_step_def)

lemma soil_layer_loop_cong:
  assumes "acceleration_intensity_choice data' = acceleration_intensity_choice data"
    and "particle_content_choice data' = particle_content_choice data"
    and "groundwater_depth_dw data' = groundwater_depth_dw data"
  shows "soil_layer_loop data' beta amax N_prime ls details running_total =
         soil_layer_loop data beta amax N_prime ls details running_total"
proof (induction ls arbitrary: details running_total)
  case Nil
  show ?case by simp
next
  case (Cons l ls)
  show ?case
    by (simp add: soil_layer_step_cong [OF assms] Cons.IH cong: sum.case_cong)
qed

text \<open>
  Claim C6. The coefficient \<open>\<beta>\<close> reported by the calculation: in group mode 0.80 for group
  "1", 0.95 for "2", 1.05 for "3" and 0.80 for any other group; otherwise
  \<open>0.20 Ms - 0.50\<close> clamped into [0.80, 1.05]. An invalid group raises nothing: the run
  behaves as the run with group "1" does, the echoed group field apart.
\<close>

theorem beta_coefficient:
  "(calculate_liquefaction_index data = Inr res \<longrightarrow>
      result_design_earthquake_adjustment_coefficient_beta res =
        (if beta_calculation_method data = py_str ''group'' then
           (if design_earthquake_group data = py_str ''1'' then 0.80
            else if design_earthquake_group data = py_str ''2'' then 0.95
            else if design_earthquake_group data = py_str ''3'' then 1.05
            else 0.80)
         else max 0.80 (min 1.05 (0.20 * surface_wave_magnitude_Ms data - 0.50))) \<and>
      0.80 \<le> result_design_earthquake_adjustment_coefficient_beta res \<and>
      result_design_earthquake_adjustment_coefficient_beta res \<le> 1.05) \<and>
   (beta_calculation_method data = py_str ''group'' \<and>
    design_earthquake_group data \<noteq> py_str ''1'' \<and>
    design_earthquake_group data \<noteq> py_str ''2'' \<and>
    design_earthquake_group data \<noteq> py_str ''3'' \<longrightarrow>
      map_sum id (\<lambda>r. r\<lparr>result_design_earthquake_group := py_str ''1''\<rparr>)
        (calculate_liquefaction_index data) =
      calculate_liquefaction_index (data\<lparr>design_earthquake_group := py_str ''1''\<rparr>))"
proof (intro conjI impI)
  assume ok: "calculate_liquefaction_index data = Inr res"
  show beta: "result_design_earthquake_adjustment_coefficient_beta res =
        (if beta_calculation_method data = py_str ''group'' then
           (if design_earthquake_group data = py_str ''1'' then 0.80
            else if design_earthquake_group data = py_str ''2'' then 0.95
            else if design_earthquake_group data = py_str ''3'' then 1.05
            else 0.80)
         else max 0.80 (min 1.05 (0.20 * surface_wave_magnitude_Ms data - 0.50)))"
    unfolding calculated_beta [OF ok] design_earthquake_adjustment_coefficient_beta_def
    by (rule refl)
  show "0.80 \<le> result_design_earthquake_adjustment_coefficient_beta res"
    unfolding beta by (simp add: max_def min_def)
  show "result_design_earthquake_adjustment_coefficient_beta res \<le> 1.05"
    unfolding beta by (simp add: max_def min_def)
next
  assume inv: "beta_calculation_method data = py_str ''group'' \<and>
    design_earthquake_group data \<noteq> py_str ''1'' \<and>
    design_earthquake_group data \<noteq> py_str ''2'' \<and>
    design_earthquake_group data \<noteq> py_str ''3''"
  let ?data' = "data\<lparr>design_earthquake_group := py_str ''1''\<rparr>"
  let ?beta = "design_earthquake_adjustment_coefficient_beta (beta_calculation_method data)
                 (design_earthquake_group data) (surface_wave_magnitude_Ms data)"
  have beta: "design_earthquake_adjustment_coefficient_beta (beta_calculation_method data)
                 (py_str ''1'') (surface_wave_magnitude_Ms data) = ?beta"
    using inv by (simp add: design_earthquake_adjustment_coefficient_beta_def)
  have loop: "soil_layer_loop ?data' ?beta amax N_prime (soil_layer_data data) [] 0 =
              soil_layer_loop data ?beta amax N_prime (soil_layer_data data) [] 0"
    for amax N_prime
    by (rule soil_layer_loop_cong) simp_all
  let ?sp = "seismic_parameters (acceleration_intensity_choice data) (seismic_intensity data)
     (surface_peak_acceleration_amax data)"
  show "map_sum id (\<lambda>r. r\<lparr>result_design_earthquake_group := py_str ''1''\<rparr>)
        (calculate_liquefaction_index data) =
      calculate_liquefaction_index ?data'"
  proof (cases ?sp)
    case (Inl e)
    then show ?thesis
      by (simp add: calculate_liquefaction_index_def Let_def)
  next
    case (Inr p)
    obtain amax N_prime where p: "p = (amax, N_prime)" by (cases p)
    show ?thesis
    proof (cases "soil_layer_loop data ?beta amax N_prime (soil_layer_data data) [] 0")
      case (Inl e)
      with Inr p show ?thesis
        by (simp add: calculate_liquefaction_index_def Let_def beta loop)
    next
      case r: (Inr r)
      with Inr p show ?thesis
        by (cases r) (simp add: calculate_liquefaction_index_def Let_def beta loop)
    qed
  qed
qed

lemma invalid_group_site_data_ok:
  "calculate_liquefaction_index invalid_group_site_data =
     Inr (projr (calculate_liquefaction_index invalid_group_site_data))"
proof (rule projr_eq, rule calculate_liquefaction_index_succeeds)
  show "seismic_parameters (acceleration_intensity_choice invalid_group_site_data)
     (seismic_intensity invalid_group_site_data)
     (surface_peak_acceleration_amax invalid_group_site_data) = Inr (0.1, 16)"
    by (simp add: seismic_parameters_def invalid_group_site_data_def default_site_data_def)
  show "list_all (layer_computable invalid_group_site_data 0.1)
     (soil_layer_data invalid_group_site_data)"
    by (simp add: layer_computable_def invalid_group_site_data_def default_site_data_def
          default_layer_def)
qed

theorem beta_coefficient_witness:
  "result_design_earthquake_adjustment_coefficient_beta
     (projr (calculate_liquefaction_index invalid_group_site_data)) = 0.80 \<and>
   map_sum id (\<lambda>r. r\<lparr>result_design_earthquake_group := py_str ''1''\<rparr>)
     (calculate_liquefaction_index invalid_group_site_data) =
   calculate_liquefaction_index (invalid_group_site_data\<lparr>design_earthquake_group := py_str ''1''\<rparr>)"
proof -
  note t = beta_coefficient [of invalid_group_site_data
      "projr (calculate_liquefaction_index invalid_group_site_data)"]
  have fields: "beta_calculation_method invalid_group_site_data = py_str ''group''"
    "design_earthquake_group invalid_group_site_data \<noteq> py_str ''1''"
    "design_earthquake_group invalid_group_site_data \<noteq> py_str ''2''"
    "design_earthquake_group invalid_group_site_data \<noteq> py_str ''3''"
    by (simp_all add: invalid_group_site_data_def default_site_data_def py_str_def)
  from t invalid_group_site_data_ok have
    "result_design_earthquake_adjustment_coefficient_beta
       (projr (calculate_liquefaction_index invalid_group_site_data)) =
        (if beta_calculation_method invalid_group_site_data = py_str ''group'' then
           (if design_earthquake_group invalid_group_site_data = py_str ''1'' then 0.80
            else if design_earthquake_group invalid_group_site_data = py_str ''2'' then 0.95
            else if design_earthquake_group invalid_group_site_data = py_str ''3'' then 1.05
            else 0.80)
         else max 0.80 (min 1.05 (0.20 * surface_wave_magnitude_Ms invalid_group_site_data - 0.50)))"
    by blast
  then have "result_design_earthquake_adjustment_coefficient_beta
       (projr (calculate_liquefaction_index invalid_group_site_data)) = 0.80"
    by (simp add: fields)
  moreover from t fields have
    "map_sum id (\<lambda>r. r\<lparr>result_design_earthquake_group := py_str ''1''\<rparr>)
     (calculate_liquefaction_index invalid_group_site_data) =
     calculate_liquefaction_index (invalid_group_site_data\<lparr>design_earthquake_group := py_str ''1''\<rparr>)"
    by blast
  ultimately show ?thesis by blast
qed

lemma dict_get_amax_mapping:
  "dict_get amax_mapping k 0.1 =
     (if k = 7 then 0.10 else if k = 8 then 0.20 else if k = 9 then 0.40 else 0.10)"
  by (simp add: dict_get_def amax_mapping_def)

lemma dict_get_N_prime_mapping:
  "dict_get N_prime_mapping x 16 =
     (if x = 0.10 then 16 else if x = 0.15 then 20 else if x = 0.20 then 23
      else if x = 0.30 then 31 else if x = 0.40 then 37 else 16)"
  by (simp add: dict_get_def N_prime_mapping_def)

lemma intensity_N_prime:
  "dict_get N_prime_mapping (dict_get amax_mapping k 0.1) 16 =
     (if k = 7 then 16 else if k = 8 then 23 else if k = 9 then 37 else 16)"
  by (simp add: dict_get_amax_mapping dict_get_N_prime_mapping)

text \<open>
  Claim C7. In intensity mode, amax is read from the table 7 to 0.10, 8 to 0.20, 9 to 0.40
  (0.10 for any other intensity) and N' from the table 0.10 to 16, 0.15 to 20, 0.20 to 23,
  0.30 to 31, 0.40 to 37 (16 for any other amax), so that the intensities 7, 8, 9 give
  N' = 16, 23, 37 and any other intensity gives amax = 0.10 and N' = 16, without an
  exception; this N' is the one in the critical blow count of every layer.
\<close>

theorem intensity_mode_seismic_parameters:
  assumes "acceleration_intensity_choice data \<noteq> py_str ''amax''"
  shows
    "seismic_parameters (acceleration_intensity_choice data) (seismic_intensity data)
       (surface_peak_acceleration_amax data) =
       Inr (if seismic_intensity data = 7 then (0.10, 16)
            else if seismic_intensity data = 8 then (0.20, 23)
            else if seismic_intensity data = 9 then (0.40, 37)
            else (0.10, 16)) \<and>
     dict_get amax_mapping k 0.1 =
       (if k = 7 then 0.10 else if k = 8 then 0.20 else if k = 9 then 0.40 else 0.10) \<and>
     dict_get N_prime_mapping x 16 =
       (if x = 0.10 then 16 else if x = 0.15 then 20 else if x = 0.20 then 23
        else if x = 0.30 then 31 else if x = 0.40 then 37 else 16) \<and>
     (calculate_liquefaction_index data = Inr res \<and> i < length (soil_layer_data data) \<longrightarrow>
        detail_Ncr (soil_layer_calculation_details res ! i) =
          (let N_prime = (if seismic_intensity data = 7 then 16
                          else if seismic_intensity data = 8 then 23
                          else if seismic_intensity data = 9 then 37 else 16);
               ds = layer_ds (soil_layer_data data ! i)
           in max 1.0 (0.79 * N_prime * (1 - 0.02 * groundwater_depth_dw data)
                         * (0.27 + ds / (ds + 6.2)))))"
proof (intro conjI impI)
  show "seismic_parameters (acceleration_intensity_choice data) (seismic_intensity data)
       (surface_peak_acceleration_amax data) =
       Inr (if seismic_intensity data = 7 then (0.10, 16)
            else if seismic_intensity data = 8 then (0.20, 23)
            else if seismic_intensity data = 9 then (0.40, 37)
            else (0.10, 16))"
    using assms
    by (simp add: seismic_parameters_def Let_def intensity_N_prime)
       (simp add: dict_get_amax_mapping)
  show "dict_get amax_mapping k 0.1 =
       (if k = 7 then 0.10 else if k = 8 then 0.20 else if k = 9 then 0.40 else 0.10)"
    by (rule dict_get_amax_mapping)
  show "dict_get N_prime_mapping x 16 =
       (if x = 0.10 then 16 else if x = 0.15 then 20 else if x = 0.20 then 23
        else if x = 0.30 then 31 else if x = 0.40 then 37 else 16)"
    by (rule dict_get_N_prime_mapping)
next
  assume a: "calculate_liquefaction_index data = Inr res \<and> i < length (soil_layer_data data)"
  from calculated_layer [of data res i] a obtain amax N_prime where
    sp: "seismic_parameters (acceleration_intensity_choice data) (seismic_intensity data)
           (surface_peak_acceleration_amax data) = Inr (amax, N_prime)"
    and step: "soil_layer_step data (result_design_earthquake_adjustment_coefficient_beta res)
           amax N_prime (soil_layer_data data ! i) = Inr (soil_layer_calculation_details res ! i)"
    by blast
  from seismic_parameters_Inr [OF sp] assms have
    N: "N_prime = (if seismic_intensity data = 7 then 16
                   else if seismic_intensity data = 8 then 23
                   else if seismic_intensity data = 9 then 37 else 16)"
    by (simp add: intensity_N_prime)
  from soil_layer_step_Inr [OF step] assms have
    "detail_Ncr (soil_layer_calculation_details res ! i) =
       max 1.0 (0.79 * N_prime * (1 - 0.02 * groundwater_depth_dw data)
                  * (0.27 + layer_ds (soil_layer_data data ! i)
                            / (layer_ds (soil_layer_data data ! i) + 6.2)))"
    by (simp add: spec_Ncr_def)
  then show "detail_Ncr (soil_layer_calculation_details res ! i) =
          (let N_prime = (if seismic_intensity data = 7 then 16
                          else if seismic_intensity data = 8 then 23
                          else if seismic_intensity data = 9 then 37 else 16);
               ds = layer_ds (soil_layer_data data ! i)
           in max 1.0 (0.79 * N_prime * (1 - 0.02 * groundwater_depth_dw data)
                         * (0.27 + ds / (ds + 6.2))))"
    unfolding Let_def N .
qed

theorem intensity_mode_seismic_parameters_witness:
  "seismic_parameters (acceleration_intensity_choice intensity_site_data)
     (seismic_intensity intensity_site_data)
     (surface_peak_acceleration_amax intensity_site_data) = Inr (0.20, 23) \<and>
   seismic_parameters (py_str ''intensity'') 7 0.1 = Inr (0.10, 16) \<and>
   seismic_parameters (py_str ''intensity'') 9 0.1 = Inr (0.40, 37) \<and>
   seismic_parameters (py_str ''intensity'') 6 0.1 = Inr (0.10, 16) \<and>
   detail_Ncr (soil_layer_calculation_details
      (projr (calculate_liquefaction_index intensity_site_data)) ! 0) =
     max 1.0 (0.79 * 23 * (1 - 0.02 * 2.0) * (0.27 + 1.5 / (1.5 + 6.2)))"
proof -
  have mode: "acceleration_intensity_choice intensity_site_data \<noteq> py_str ''amax''"
    by (simp add: intensity_site_data_def py_str_def)
  have mode': "acceleration_intensity_choice
      (intensity_site_data\<lparr>seismic_intensity := k\<rparr>) \<noteq> py_str ''amax''" for k
    by (simp add: intensity_site_data_def py_str_def)
  have fields: "seismic_intensity intensity_site_data = 8"
    "acceleration_intensity_choice intensity_site_data = py_str ''intensity''"
    "surface_peak_acceleration_amax intensity_site_data = 0.1"
    "groundwater_depth_dw intensity_site_data = 2.0"
    "layer_ds (soil_layer_data intensity_site_data ! 0) = 1.5"
    "0 < length (soil_layer_data intensity_site_data)"
    by (simp_all add: intensity_site_data_def default_site_data_def default_layer_def)
  note ok = projr_eq [OF intensity_site_data_succeeds]
  note t = intensity_mode_seismic_parameters [OF mode,
      of _ _ "projr (calculate_liquefaction_index intensity_site_data)" 0]
  from t have "seismic_parameters (acceleration_intensity_choice intensity_site_data)
     (seismic_intensity intensity_site_data)
     (surface_peak_acceleration_amax intensity_site_data) = Inr (0.20, 23)"
    by (simp add: fields)
  moreover from intensity_mode_seismic_parameters [OF mode' [of 7]]
  have "seismic_parameters (py_str ''intensity'') 7 0.1 = Inr (0.10, 16)"
    by (simp add: fields)
  moreover from intensity_mode_seismic_parameters [OF mode' [of 9]]
  have "seismic_parameters (py_str ''intensity'') 9 0.1 = Inr (0.40, 37)"
    by (simp add: fields)
  moreover from intensity_mode_seismic_parameters [OF mode' [of 6]]
  have "seismic_parameters (py_str ''intensity'') 6 0.1 = Inr (0.10, 16)"
    by (simp add: fields)
  moreover from t ok fields(6) have
    "detail_Ncr (soil_layer_calculation_details
      (projr (calculate_liquefaction_index intensity_site_data)) ! 0) =
          (let N_prime = (if seismic_intensity intensity_site_data = 7 then 16
                          else if seismic_intensity intensity_site_data = 8 then 23
                          else if seismic_intensity intensity_site_data = 9 then 37 else 16);
               ds = layer_ds (soil_layer_data intensity_site_data ! 0)
           in max 1.0 (0.79 * N_prime * (1 - 0.02 * groundwater_depth_dw intensity_site_data)
                         * (0.27 + ds / (ds + 6.2))))"
    by blast
  then have "detail_Ncr (soil_layer_calculation_details
      (projr (calculate_liquefaction_index intensity_site_data)) ! 0) =
     max 1.0 (0.79 * 23 * (1 - 0.02 * 2.0) * (0.27 + 1.5 / (1.5 + 6.2)))"
    by (simp add: fields Let_def)
  ultimately show ?thesis by blast
qed

lemma py_div_Inl: "py_div a b = Inl e \<Longrightarrow> e = ZeroDivisionError"
  by (simp add: py_div_def split: if_splits)

lemma math_sqrt_Inl: "math_sqrt x = Inl e \<Longrightarrow> e = MathDomainError"
  by (simp add: math_sqrt_def split: if_splits)

lemma critical_value_Ncr_Inl:
  assumes "critical_value_Ncr choice content_choice beta amax N_prime dw ds content_value = Inl e"
  shows "e = ZeroDivisionError \<or> e = MathDomainError"
  using assms
  by (auto simp: critical_value_Ncr_def Let_def
           split: if_splits sum.splits dest: py_div_Inl math_sqrt_Inl)

lemma soil_layer_step_Inl:
  assumes "soil_layer_step data beta amax N_prime l = Inl e"
  shows "e = ZeroDivisionError \<or> e = MathDomainError \<or> e = OverflowError"
  using assms
  by (auto simp: soil_layer_step_def Let_def critical_value_Ncr_PL_eq
           liquefaction_probability_PL_eq
           split: if_splits sum.splits dest: critical_value_Ncr_Inl)

lemma soil_layer_loop_Inl:
  assumes "soil_layer_loop data beta amax N_prime ls details running_total = Inl e"
  shows "e = ZeroDivisionError \<or> e = MathDomainError \<or> e = OverflowError"
  using assms
proof (induction ls arbitrary: details running_total)
  case Nil
  then show ?case by simp
next
  case (Cons l ls)
  show ?case
  proof (cases "soil_layer_step data beta amax N_prime l")
    case (Inl e')
    with Cons.prems have "e' = e" by simp
    with Inl show ?thesis by (auto dest: soil_layer_step_Inl)
  next
    case (Inr d)
    with Cons.prems show ?thesis by (auto dest: Cons.IH)
  qed
qed

text \<open>
  Claim C1, as the code has it. The range check raises exactly in amax mode with
  \<open>amax < 0.09\<close> or \<open>amax > 0.41\<close>, and no other step raises this error: the closed interval
  [0.09, 0.41] is accepted. On the default site the calculation returns for amax 0.09,
  0.41, 0.10 and 0.40, and raises for 0.08 and 0.42.
\<close>

theorem amax_range_check:
  "(calculate_liquefaction_index data = Inl (AmaxRangeError a)) =
     (acceleration_intensity_choice data = py_str ''amax'' \<and>
      a = surface_peak_acceleration_amax data \<and> \<not> (0.09 \<le> a \<and> a \<le> 0.41)) \<and>
   \<not> isl (calculate_liquefaction_index
           (default_site_data\<lparr>surface_peak_acceleration_amax := 0.09\<rparr>)) \<and>
   \<not> isl (calculate_liquefaction_index
           (default_site_data\<lparr>surface_peak_acceleration_amax := 0.41\<rparr>)) \<and>
   \<not> isl (calculate_liquefaction_index
           (default_site_data\<lparr>surface_peak_acceleration_amax := 0.10\<rparr>)) \<and>
   \<not> isl (calculate_liquefaction_index
           (default_site_data\<lparr>surface_peak_acceleration_amax := 0.40\<rparr>)) \<and>
   calculate_liquefaction_index (default_site_data\<lparr>surface_peak_acceleration_amax := 0.08\<rparr>)
     = Inl (AmaxRangeError 0.08) \<and>
   calculate_liquefaction_index (default_site_data\<lparr>surface_peak_acceleration_amax := 0.42\<rparr>)
     = Inl (AmaxRangeError 0.42)"
proof (intro conjI)
  let ?sp = "seismic_parameters (acceleration_intensity_choice data) (seismic_intensity data)
               (surface_peak_acceleration_amax data)"
  let ?beta = "design_earthquake_adjustment_coefficient_beta (beta_calculation_method data)
                 (design_earthquake_group data) (surface_wave_magnitude_Ms data)"
  show "(calculate_liquefaction_index data = Inl (AmaxRangeError a)) =
     (acceleration_intensity_choice data = py_str ''amax'' \<and>
      a = surface_peak_acceleration_amax data \<and> \<not> (0.09 \<le> a \<and> a \<le> 0.41))"
  proof (cases ?sp)
    case (Inl e)
    then have "calculate_liquefaction_index data = Inl e"
      by (simp add: calculate_liquefaction_index_def Let_def)
    moreover from Inl have "acceleration_intensity_choice data = py_str ''amax'' \<and>
        e = AmaxRangeError (surface_peak_acceleration_amax data) \<and>
        \<not> (0.09 \<le> surface_peak_acceleration_amax data \<and> surface_peak_acceleration_amax data \<le> 0.41)"
      by (simp add: seismic_parameters_def Let_def split: if_splits)
    ultimately show ?thesis by auto
  next
    case (Inr p)
    obtain amax N_prime where p: "p = (amax, N_prime)" by (cases p)
    from Inr p have in_range: "acceleration_intensity_choice data = py_str ''amax'' \<longrightarrow>
        0.09 \<le> surface_peak_acceleration_amax data \<and> surface_peak_acceleration_amax data \<le> 0.41"
      by (simp add: seismic_parameters_def Let_def split: if_splits)
    have "calculate_liquefaction_index data \<noteq> Inl (AmaxRangeError a)"
    proof (cases "soil_layer_loop data ?beta amax N_prime (soil_layer_data data) [] 0")
      case (Inl e)
      from soil_layer_loop_Inl [OF Inl] have "e \<noteq> AmaxRangeError a" by auto
      moreover from Inl Inr p have "calculate_liquefaction_index data = Inl e"
        by (simp add: calculate_liquefaction_index_def Let_def)
      ultimately show ?thesis by simp
    next
      case r: (Inr r)
      with Inr p show ?thesis
        by (cases r) (simp add: calculate_liquefaction_index_def Let_def)
    qed
    with in_range show ?thesis by auto
  qed
  show "\<not> isl (calculate_liquefaction_index
           (default_site_data\<lparr>surface_peak_acceleration_amax := 0.09\<rparr>))"
    by (rule default_site_data_succeeds) simp_all
  show "\<not> isl (calculate_liquefaction_index
           (default_site_data\<lparr>surface_peak_acceleration_amax := 0.41\<rparr>))"
    by (rule default_site_data_succeeds) simp_all
  show "\<not> isl (calculate_liquefaction_index
           (default_site_data\<lparr>surface_peak_acceleration_amax := 0.10\<rparr>))"
    by (rule default_site_data_succeeds) simp_all
  show "\<not> isl (calculate_liquefaction_index
           (default_site_data\<lparr>surface_peak_acceleration_amax := 0.40\<rparr>))"
    by (rule default_site_data_succeeds) simp_all
  show "calculate_liquefaction_index (default_site_data\<lparr>surface_peak_acceleration_amax := 0.08\<rparr>)
     = Inl (AmaxRangeError 0.08)"
    by (simp add: calculate_liquefaction_index_def Let_def seismic_parameters_def
          default_site_data_def)
  show "calculate_liquefaction_index (default_site_data\<lparr>surface_peak_acceleration_amax := 0.42\<rparr>)
     = Inl (AmaxRangeError 0.42)"
    by (simp add: calculate_liquefaction_index_def Let_def seismic_parameters_def
          default_site_data_def)
qed

text \<open>
  Claim C1 as the specification states it (the bounds 0.09 and 0.41 rejected) fails: with
  either bound as amax the calculation of the default site returns a result.
\<close>

theorem amax_inclusive_bounds_accepted:
  "\<not> isl (calculate_liquefaction_index
           (default_site_data\<lparr>surface_peak_acceleration_amax := 0.09\<rparr>)) \<and>
   \<not> isl (calculate_liquefaction_index
           (default_site_data\<lparr>surface_peak_acceleration_amax := 0.41\<rparr>))"
proof
  show "\<not> isl (calculate_liquefaction_index
           (default_site_data\<lparr>surface_peak_acceleration_amax := 0.09\<rparr>))"
    by (rule default_site_data_succeeds) simp_all
  show "\<not> isl (calculate_liquefaction_index
           (default_site_data\<lparr>surface_peak_acceleration_amax := 0.41\<rparr>))"
    by (rule default_site_data_succeeds) simp_all
qed

section \<open>Properties of the column recognition\<close>

lemmas resolver_defs = auto_recognize_column_names_def column_name_mapping_def
  standardized_columns_of_def best_match_for_def standardize_text_def py_str_def rho_c_def
  kept_by_pattern_def lower_char_def sublist_code Let_def

lemma recognized_Fc:
  "map snd (auto_recognize_column_names [py_str ''Fc'']) =
     [None, None, None, Some (py_str ''Fc''), None, None]"
  by (simp add: resolver_defs)

lemma recognized_N_value:
  "map snd (auto_recognize_column_names [py_str ''N value'']) =
     [None, None, Some (py_str ''N value''), None, None, None]"
  by (simp add: resolver_defs)

lemma recognized_Notes:
  "map snd (auto_recognize_column_names [py_str ''Notes'']) =
     [None, None, Some (py_str ''Notes''), None, None, None]"
  by (simp add: resolver_defs)

lemma recognized_three_headers:
  "map snd (auto_recognize_column_names [py_str ''Fc'', py_str ''N value'', py_str ''Notes'']) =
     [None, None, Some (py_str ''N value''), Some (py_str ''Fc''), None, None]"
  by (simp add: resolver_defs)

lemma recognized_keys:
  "map fst (auto_recognize_column_names column_name_list) =
     [py_str ''Site Number'', py_str ''Saturated Sand Depth ds(m)'',
      py_str ''Measured SPT Blow Count N'', py_str ''Clay/Fine Particle Content(%)'',
      py_str ''Surface Peak Acceleration amax(g)'', py_str ''Seismic Intensity'']"
  by (simp add: auto_recognize_column_names_def column_name_mapping_def Let_def)

text \<open>
  Claim C4, as the code has it. The result has the six standard column names as its keys.
  The header "Fc" alone is recognized as the clay/fine particle content column and as no
  other; the header "N value" alone as the blow count column and as no other. The header
  "Notes" alone is not left unrecognized: its standardized form "notes" contains "n", the
  standardized alias "N" of the blow count column, so the fuzzy step assigns it to
  "Measured SPT Blow Count N"; the five other standard columns get no match. With all three
  headers, "N value" and "Fc" are matched by their aliases.
\<close>

theorem column_recognition_examples:
  "map fst (auto_recognize_column_names column_name_list) =
     [py_str ''Site Number'', py_str ''Saturated Sand Depth ds(m)'',
      py_str ''Measured SPT Blow Count N'', py_str ''Clay/Fine Particle Content(%)'',
      py_str ''Surface Peak Acceleration amax(g)'', py_str ''Seismic Intensity''] \<and>
   map snd (auto_recognize_column_names [py_str ''Fc'']) =
     [None, None, None, Some (py_str ''Fc''), None, None] \<and>
   map snd (auto_recognize_column_names [py_str ''N value'']) =
     [None, None, Some (py_str ''N value''), None, None, None] \<and>
   map snd (auto_recognize_column_names [py_str ''Notes'']) =
     [None, None, Some (py_str ''Notes''), None, None, None] \<and>
   map snd (auto_recognize_column_names [py_str ''Fc'', py_str ''N value'', py_str ''Notes'']) =
     [None, None, Some (py_str ''N value''), Some (py_str ''Fc''), None, None]"
  using recognized_keys recognized_Fc recognized_N_value recognized_Notes
    recognized_three_headers
  by (intro conjI)

text \<open>
  Claim C4 as the specification states it (the header "Notes" unrecognized for every
  standard column) fails for the blow count column.
\<close>

theorem Notes_recognized_as_blow_count:
  "map_of (auto_recognize_column_names [py_str ''Notes'']) (py_str ''Measured SPT Blow Count N'')
     = Some (Some (py_str ''Notes''))"
  by (simp add: resolver_defs)

end
